theory Spec2Isabelle
  imports Main
begin

section \<open>Values that \<open>json.loads\<close> returns\<close>

text \<open>
  A stream record is whatever \<open>json.loads\<close> makes of one line. Python's dict is an
  association list read with \<open>map_of\<close>. Nothing in the program computes with a float,
  it only tests one for truth, so a float is kept as the answer to that test
  (\<open>JFloat nz\<close>: \<open>nz\<close> says that it is not zero).
\<close>

datatype json =
    JNull
  | JBool bool
  | JInt int
  | JFloat bool
  | JStr string
  | JList "json list"
  | JDict "(string \<times> json) list"

text \<open>Python's truth value of an object, as \<open>if content:\<close> and \<open>if ... data.get("done", False)\<close> test it.\<close>

fun truthy :: "json \<Rightarrow> bool" where
  "truthy JNull = False"
| "truthy (JBool b) = b"
| "truthy (JInt i) = (i \<noteq> 0)"
| "truthy (JFloat nz) = nz"
| "truthy (JStr s) = (s \<noteq> [])"
| "truthy (JList xs) = (xs \<noteq> [])"
| "truthy (JDict kvs) = (kvs \<noteq> [])"

fun type_name :: "json \<Rightarrow> string" where
  "type_name JNull = ''NoneType''"
| "type_name (JBool b) = ''bool''"
| "type_name (JInt i) = ''int''"
| "type_name (JFloat nz) = ''float''"
| "type_name (JStr s) = ''str''"
| "type_name (JList xs) = ''list''"
| "type_name (JDict kvs) = ''dict''"

section \<open>OllamaWorker\<close>

text \<open>The four signals of the worker, with their payloads.\<close>

datatype signal =
    Typing bool
  | Chunk string
  | Full string
  | Error string

text \<open>
  \<open>full += content\<close> followed by \<open>self.response_chunk.emit(content)\<close>. Adding
  anything but a \<open>str\<close> to a \<open>str\<close> raises \<open>TypeError\<close>; \<open>Inl\<close> carries the text
  of the exception.
\<close>

fun add_content :: "json \<Rightarrow> string \<Rightarrow> string + (string \<times> signal list)" where
  "add_content (JStr c) full = Inr (full @ c, [Chunk c])"
| "add_content v full =
     Inl (''can only concatenate str (not '' @ [CHR 0x22] @ type_name v @ [CHR 0x22] @ '') to str'')"

text \<open>
  The first \<open>if\<close> of the loop body (lines 65 to 69): a dict with a \<open>message\<close> key
  whose value is a dict has the value of \<open>.get("content")\<close> (\<open>None\<close> when the key is
  missing) added when it is true.
\<close>

definition on_record :: "json \<Rightarrow> string \<Rightarrow> string + (string \<times> signal list)" where
  "on_record data full =
     (case data of
        JDict d \<Rightarrow>
          (case map_of d ''message'' of
             Some (JDict m) \<Rightarrow>
               (let content = (case map_of m ''content'' of None \<Rightarrow> JNull | Some v \<Rightarrow> v)
                in if truthy content then add_content content full else Inr (full, []))
           | _ \<Rightarrow> Inr (full, []))
      | _ \<Rightarrow> Inr (full, []))"

text \<open>The second \<open>if\<close> (line 71): \<open>isinstance(data, dict) and data.get("done", False)\<close>.\<close>

definition is_done :: "json \<Rightarrow> bool" where
  "is_done data =
     (case data of
        JDict d \<Rightarrow> truthy (case map_of d ''done'' of None \<Rightarrow> JBool False | Some v \<Rightarrow> v)
      | _ \<Rightarrow> False)"

text \<open>
  One pass through the body of \<open>for line in r.iter_lines()\<close>. \<open>loads\<close> stands for
  \<open>json.loads(line.decode("utf-8"))\<close>, \<open>None\<close> when either of the two raises;
  \<open>running\<close> is the value of \<open>self._running\<close> that this pass reads. The result says
  how the loop goes on, the new value of \<open>full\<close> and the signals emitted.
\<close>

datatype ctl = Continue | Break | Raise string

definition body ::
  "(string \<Rightarrow> json option) \<Rightarrow> bool \<Rightarrow> string \<Rightarrow> string \<Rightarrow> ctl \<times> string \<times> signal list" where
  "body loads running full line =
     (if \<not> running then (Break, full, [])
      else if line = [] then (Continue, full, [])
      else
        (case loads line of
           None \<Rightarrow> (Continue, full, [])
         | Some data \<Rightarrow>
             (case on_record data full of
                Inl e \<Rightarrow> (Raise e, full, [])
              | Inr (full', sigs) \<Rightarrow>
                  if is_done data then (Break, full', sigs) else (Continue, full', sigs))))"

text \<open>
  What the connection hands to the loop: a line, or an exception of \<open>requests\<close>
  (\<open>requests.post\<close>, \<open>raise_for_status\<close> and \<open>iter_lines\<close> all raise into the same
  handler). The end of the list is the end of the response.
\<close>

datatype item = Line string | Raises string

text \<open>
  The loop of \<open>run\<close>, on the items paired with the value of \<open>_running\<close> read in that
  pass: the signals emitted, and \<open>Inr full\<close> when the loop is left normally, \<open>Inl e\<close>
  when an exception leaves the \<open>try\<close>.
\<close>

fun run_loop ::
  "(string \<Rightarrow> json option) \<Rightarrow> string \<Rightarrow> (bool \<times> item) list \<Rightarrow> signal list \<times> (string + string)" where
  "run_loop loads full [] = ([], Inr full)"
| "run_loop loads full ((running, Raises e) # rest) = ([], Inl e)"
| "run_loop loads full ((running, Line l) # rest) =
     (case body loads running full l of
        (Continue, full', sigs) \<Rightarrow>
          (case run_loop loads full' rest of (sigs', r) \<Rightarrow> (sigs @ sigs', r))
      | (Break, full', sigs) \<Rightarrow> (sigs, Inr full')
      | (Raise e, full', sigs) \<Rightarrow> (sigs, Inl e))"

definition run :: "(string \<Rightarrow> json option) \<Rightarrow> (bool \<times> item) list \<Rightarrow> signal list" where
  "run loads items =
     [Typing True] @
     (case run_loop loads [] items of
        (sigs, Inr full) \<Rightarrow> sigs @ [Full full]
      | (sigs, Inl e) \<Rightarrow> sigs @ [Error e]) @
     [Typing False]"

text \<open>The text that a signal adds to the display: that of a chunk, nothing otherwise.\<close>

fun chunk_text :: "signal \<Rightarrow> string" where
  "chunk_text (Chunk c) = c"
| "chunk_text sg = []"

section \<open>The stream format in the words of the specification\<close>

text \<open>
  The deltas of a line sequence as the specification describes them: empty lines and
  lines that do not parse are passed over, a record shaped as \<open>{message:{content}}\<close>
  gives its text, and the record with \<open>done = true\<close> is the last one looked at.
\<close>

definition spec_delta :: "json \<Rightarrow> string list" where
  "spec_delta data =
     (case data of
        JDict d \<Rightarrow>
          (case map_of d ''message'' of
             Some (JDict m) \<Rightarrow>
               (case map_of m ''content'' of
                  Some (JStr c) \<Rightarrow> if c = [] then [] else [c]
                | _ \<Rightarrow> [])
           | _ \<Rightarrow> [])
      | _ \<Rightarrow> [])"

definition spec_done :: "json \<Rightarrow> bool" where
  "spec_done data =
     (case data of JDict d \<Rightarrow> map_of d ''done'' = Some (JBool True) | _ \<Rightarrow> False)"

fun spec_deltas :: "(string \<Rightarrow> json option) \<Rightarrow> string list \<Rightarrow> string list" where
  "spec_deltas loads [] = []"
| "spec_deltas loads (l # ls) =
     (if l = [] then spec_deltas loads ls
      else
        (case loads l of
           None \<Rightarrow> spec_deltas loads ls
         | Some data \<Rightarrow>
             spec_delta data @ (if spec_done data then [] else spec_deltas loads ls)))"

text \<open>
  A record in the format of the backend: a \<open>content\<close> that counts as true is a string,
  and a \<open>done\<close> that counts as true is the boolean \<open>true\<close>.
\<close>

definition record_ok :: "json \<Rightarrow> bool" where
  "record_ok data =
     (case data of
        JDict d \<Rightarrow>
          (case map_of d ''message'' of
             Some (JDict m) \<Rightarrow>
               (case map_of m ''content'' of
                  None \<Rightarrow> True
                | Some (JStr c) \<Rightarrow> True
                | Some v \<Rightarrow> \<not> truthy v)
           | _ \<Rightarrow> True) \<and>
          (case map_of d ''done'' of
             None \<Rightarrow> True
           | Some (JBool b) \<Rightarrow> True
           | Some v \<Rightarrow> \<not> truthy v)
      | _ \<Rightarrow> True)"

section \<open>AIAssistantApp\<close>

subsection \<open>Sessions and the state of the application\<close>

text \<open>
  A message and a session are the dicts of the source, \<open>{"role", "content"}\<close> and
  \<open>{"id", "title", "messages"}\<close>. The field \<open>id\<close> is called \<open>sid\<close> here.
\<close>

record message =
  role :: string
  content :: string

record session =
  sid :: string
  title :: string
  messages :: "message list"

text \<open>
  A worker object: \<open>self.model\<close>, \<open>self._running\<close>, the local variable \<open>full\<close>
  of its \<open>run\<close>, and whether \<open>run\<close> has not returned yet. \<open>wsession\<close> is the id of
  the session whose message list the worker was given as \<open>self.messages\<close>; the same
  session dict is the \<open>session\<close> that the \<open>on_full\<close> closure connected to this
  worker holds.
\<close>

record worker =
  wmodel :: string
  wsession :: string
  wrunning :: bool
  wfull :: string
  walive :: bool

text \<open>
  The fields of the application that the operations below read or write. Worker
  objects live in the store \<open>workers\<close> and are named by their index, so that a worker
  which \<open>self.ollama_worker\<close> no longer refers to still exists and still runs.
  \<open>input_box\<close> is the text of the compose box and \<open>system_notes\<close> the texts handed to
  \<open>_show_system\<close>, oldest first. The bubbles of the chat display and the status label
  are not modelled.
\<close>

record app =
  current_model :: "string option"
  chat_sessions :: "session list"
  current_session_id :: "string option"
  ollama_worker :: "nat option"
  workers :: "worker list"
  input_box :: string
  system_notes :: "string list"

text \<open>An exception that leaves a slot of the application.\<close>

datatype exn = StopIteration

text \<open>The fields as \<open>__init__\<close> sets them, before \<open>load_models\<close> and the first chat.\<close>

definition app_init :: app where
  "app_init =
     \<lparr>current_model = None, chat_sessions = [], current_session_id = None,
      ollama_worker = None, workers = [], input_box = [], system_notes = []\<rparr>"

text \<open>\<open>_on_model_selected\<close>: the current text of the dropdown becomes the model.\<close>

definition on_model_selected :: "string \<Rightarrow> app \<Rightarrow> app" where
  "on_model_selected text st = st\<lparr>current_model := Some text\<rparr>"

text \<open>\<open>_show_system\<close> adds a notification bubble.\<close>

definition show_system :: "string \<Rightarrow> app \<Rightarrow> app" where
  "show_system text st = st\<lparr>system_notes := system_notes st @ [text]\<rparr>"

text \<open>
  \<open>_get_session\<close>: the first session with the current id; \<open>next\<close> raises
  \<open>StopIteration\<close> (here \<open>None\<close>) when there is none.
\<close>

definition get_session :: "app \<Rightarrow> session option" where
  "get_session st =
     (case current_session_id st of
        None \<Rightarrow> None
      | Some cid \<Rightarrow> find (\<lambda>s. sid s = cid) (chat_sessions st))"

text \<open>A session dict is changed in place: the first session with that id is replaced.\<close>

fun update_session :: "string \<Rightarrow> (session \<Rightarrow> session) \<Rightarrow> session list \<Rightarrow> session list" where
  "update_session cid f [] = []"
| "update_session cid f (s # ss) =
     (if sid s = cid then f s # ss else s # update_session cid f ss)"

definition append_message :: "message \<Rightarrow> session \<Rightarrow> session" where
  "append_message m s = s\<lparr>messages := messages s @ [m]\<rparr>"

text \<open>The title rule of line 280: \<open>text[:30] + ("..." if len(text) > 30 else "")\<close>.\<close>

definition derive_title :: "string \<Rightarrow> string" where
  "derive_title text = take 30 text @ (if length text > 30 then ''...'' else [])"

text \<open>
  \<open>_render_message\<close>, lines 276 to 281: unless \<open>initial\<close>, the message is appended to
  the log of the current session, and the title is set when the role is \<open>user\<close> and
  the log then holds exactly one user message.
\<close>

definition render_message :: "string \<Rightarrow> string \<Rightarrow> bool \<Rightarrow> app \<Rightarrow> exn + app" where
  "render_message r text initial st =
     (if \<not> initial then
        (case get_session st of
           None \<Rightarrow> Inl StopIteration
         | Some s \<Rightarrow>
             (let s1 = append_message \<lparr>role = r, content = text\<rparr> s;
                  s2 = (if r = ''user'' \<and>
                           length (filter (\<lambda>m. role m = ''user'') (messages s1)) = 1
                        then s1\<lparr>title := derive_title text\<rparr> else s1)
              in Inr (st\<lparr>chat_sessions := update_session (sid s) (\<lambda>_. s2) (chat_sessions st)\<rparr>)))
      else Inr st)"

text \<open>\<open>start_new_chat\<close>; \<open>cid\<close> is the fresh \<open>str(uuid.uuid4())\<close>.\<close>

definition start_new_chat :: "string \<Rightarrow> bool \<Rightarrow> app \<Rightarrow> exn + app" where
  "start_new_chat cid initial st =
     (let st1 = st\<lparr>chat_sessions := \<lparr>sid = cid, title = ''New Chat'', messages = []\<rparr> # chat_sessions st,
                    current_session_id := Some cid\<rparr>
      in if \<not> initial then render_message ''assistant'' ''Hello! How can I help you?'' False st1
         else Inr st1)"

text \<open>
  \<open>_on_chat_selected\<close>: the messages of the chosen session are drawn again with
  \<open>initial=True\<close>, which leaves every log as it is.
\<close>

definition on_chat_selected :: "string \<Rightarrow> app \<Rightarrow> exn + app" where
  "on_chat_selected cid st =
     (if Some cid = current_session_id st then Inr st
      else
        (let st1 = st\<lparr>current_session_id := Some cid\<rparr>
         in case get_session st1 of None \<Rightarrow> Inl StopIteration | Some s \<Rightarrow> Inr st1))"

subsection \<open>send_message\<close>

text \<open>
  \<open>str.isspace\<close> on the characters below 256, and \<open>str.strip()\<close>.
\<close>

definition isspace :: "char \<Rightarrow> bool" where
  "isspace c =
     (let n = (of_char c :: nat)
      in (9 \<le> n \<and> n \<le> 13) \<or> (28 \<le> n \<and> n \<le> 32) \<or> n = 133 \<or> n = 160)"

definition strip :: "string \<Rightarrow> string" where
  "strip s = rev (dropWhile isspace (rev (dropWhile isspace s)))"

text \<open>The test \<open>if not self.current_model\<close>: \<open>None\<close> and the empty string are false.\<close>

definition model_selected :: "string option \<Rightarrow> bool" where
  "model_selected m = (case m of None \<Rightarrow> False | Some name \<Rightarrow> name \<noteq> [])"

text \<open>\<open>OllamaWorker.stop\<close> on the worker at index \<open>w\<close> of the store.\<close>

definition stop :: "nat \<Rightarrow> app \<Rightarrow> app" where
  "stop w st = st\<lparr>workers := (workers st)[w := (workers st ! w)\<lparr>wrunning := False\<rparr>]\<rparr>"

text \<open>
  \<open>send_message\<close>. The user message is appended at line 363 and handed to
  \<open>_render_message\<close> at line 364; a worker still referred to is stopped and the
  reference dropped (lines 379 to 385); a new worker is made and started (lines 388
  and 415). The wait of at most 200 ms is not modelled: what the old worker does
  after \<open>stop\<close> is a later step of that worker.
\<close>

definition send_message :: "app \<Rightarrow> exn + app" where
  "send_message st =
     (let user_text = strip (input_box st)
      in if user_text = [] then Inr st
         else if \<not> model_selected (current_model st) then
           Inr (show_system ''Select a model first'' st)
         else
           (case get_session st of
              None \<Rightarrow> Inl StopIteration
            | Some session \<Rightarrow>
                (let st1 = st\<lparr>chat_sessions :=
                              update_session (sid session)
                                (append_message \<lparr>role = ''user'', content = user_text\<rparr>)
                                (chat_sessions st)\<rparr>
                 in case render_message ''user'' user_text False st1 of
                      Inl e \<Rightarrow> Inl e
                    | Inr st2 \<Rightarrow>
                        (let st3 = st2\<lparr>input_box := []\<rparr>;
                             st4 = (case ollama_worker st3 of
                                      None \<Rightarrow> st3
                                    | Some w \<Rightarrow> (stop w st3)\<lparr>ollama_worker := None\<rparr>);
                             new = \<lparr>wmodel = the (current_model st4), wsession = sid session,
                                    wrunning = True, wfull = [], walive = True\<rparr>
                         in Inr (st4\<lparr>workers := workers st4 @ [new],
                                     ollama_worker := Some (length (workers st4))\<rparr>)))))"

subsection \<open>The slots connected to a worker\<close>

text \<open>
  \<open>on_full\<close> of the closure made for a send in the session \<open>cs\<close>: the text is
  appended to that session at line 409, handed to \<open>_render_message\<close> at line 410, and
  \<open>self.ollama_worker\<close> is cleared.
\<close>

definition on_full :: "string \<Rightarrow> string \<Rightarrow> app \<Rightarrow> exn + app" where
  "on_full cs full_text st =
     (let st1 = st\<lparr>chat_sessions :=
                   update_session cs
                     (append_message \<lparr>role = ''assistant'', content = full_text\<rparr>)
                     (chat_sessions st)\<rparr>
      in case render_message ''assistant'' full_text False st1 of
           Inl e \<Rightarrow> Inl e
         | Inr st2 \<Rightarrow> Inr (st2\<lparr>ollama_worker := None\<rparr>))"

text \<open>
  A signal of the worker reaches the slot connected in \<open>send_message\<close>: \<open>on_chunk\<close>
  and the slot of \<open>typing_signal\<close> write to the display only, \<open>error_occurred\<close>
  shows \<open>AI Error: ...\<close>.
\<close>

fun deliver :: "string \<Rightarrow> signal \<Rightarrow> app \<Rightarrow> exn + app" where
  "deliver cs (Typing b) st = Inr st"
| "deliver cs (Chunk c) st = Inr st"
| "deliver cs (Full t) st = on_full cs t st"
| "deliver cs (Error e) st = Inr (show_system (''AI Error: '' @ e) st)"

fun deliver_all :: "string \<Rightarrow> signal list \<Rightarrow> app \<Rightarrow> exn + app" where
  "deliver_all cs [] st = Inr st"
| "deliver_all cs (x # xs) st =
     (case deliver cs x st of Inl e \<Rightarrow> Inl e | Inr st' \<Rightarrow> deliver_all cs xs st')"

subsection \<open>The worker thread beside the application\<close>

text \<open>
  One step of the thread of worker \<open>w\<close>: it takes the next item of the connection
  (\<open>None\<close>: the response has ended), runs the loop body on it with the value of
  \<open>_running\<close> that the store holds at that moment, and its signals reach the slots.
  When the loop is left, \<open>full_response\<close> or \<open>error_occurred\<close> is emitted and the
  thread ends. A worker whose \<open>run\<close> has returned does nothing.
\<close>

definition finish :: "nat \<Rightarrow> signal \<Rightarrow> app \<Rightarrow> exn + app" where
  "finish w sg st =
     deliver (wsession (workers st ! w)) sg
       (st\<lparr>workers := (workers st)[w := (workers st ! w)\<lparr>walive := False\<rparr>]\<rparr>)"

definition worker_step :: "(string \<Rightarrow> json option) \<Rightarrow> nat \<Rightarrow> item option \<Rightarrow> app \<Rightarrow> exn + app" where
  "worker_step loads w it st =
     (if w < length (workers st) \<and> walive (workers st ! w) then
        (let wk = workers st ! w
         in case it of
              None \<Rightarrow> finish w (Full (wfull wk)) st
            | Some (Raises e) \<Rightarrow> finish w (Error e) st
            | Some (Line l) \<Rightarrow>
                (case body loads (wrunning wk) (wfull wk) l of
                   (c, f, sigs) \<Rightarrow>
                     (case deliver_all (wsession wk) sigs
                             (st\<lparr>workers := (workers st)[w := wk\<lparr>wfull := f\<rparr>]\<rparr>) of
                        Inl e \<Rightarrow> Inl e
                      | Inr st' \<Rightarrow>
                          (case c of
                             Continue \<Rightarrow> Inr st'
                           | Break \<Rightarrow> finish w (Full f) st'
                           | Raise e \<Rightarrow> finish w (Error e) st'))))
      else Inr st)"

text \<open>
  What happens to the application, one after the other: the user types into the
  compose box, presses Send, picks a model, clicks a chat, starts a new chat, or the
  thread of a worker takes a step.
\<close>

datatype action =
    SetInput string
  | Send
  | SelectModel string
  | SelectChat string
  | NewChat string bool
  | Recv nat "item option"

fun step :: "(string \<Rightarrow> json option) \<Rightarrow> action \<Rightarrow> app \<Rightarrow> exn + app" where
  "step loads (SetInput t) st = Inr (st\<lparr>input_box := t\<rparr>)"
| "step loads Send st = send_message st"
| "step loads (SelectModel name) st = Inr (on_model_selected name st)"
| "step loads (SelectChat cid) st = on_chat_selected cid st"
| "step loads (NewChat cid initial) st = start_new_chat cid initial st"
| "step loads (Recv w it) st = worker_step loads w it st"

fun exec :: "(string \<Rightarrow> json option) \<Rightarrow> action list \<Rightarrow> app \<Rightarrow> exn + app" where
  "exec loads [] st = Inr st"
| "exec loads (a # as) st =
     (case step loads a st of Inl e \<Rightarrow> Inl e | Inr st' \<Rightarrow> exec loads as st')"

subsection \<open>load_file\<close>

text \<open>
  What the program can see of the file chosen in the dialog: the extension
  \<open>os.path.splitext(f)[1].lower()\<close>, and what each reader gives for it, \<open>Inl\<close> with
  the text of the exception when it raises. A pdf page gives its text, \<open>None\<close>, or
  raises.
\<close>

datatype page = Page "string option" | PageRaises

record chosen_file =
  ext :: string
  read_result :: "string + string"
  document_result :: "string + string list"
  reader_result :: "string + page list"

text \<open>
  The value of \<open>content\<close> when the \<open>try\<close> reaches \<open>insertPlainText\<close>: a string, or,
  after line 470, the method \<open>"\n".join\<close> itself, which that line assigns without
  calling it.
\<close>

datatype pyval = Str string | StrJoin

text \<open>The loop over \<open>reader.pages\<close>, lines 476 to 480.\<close>

fun pdf_text :: "string \<Rightarrow> page list \<Rightarrow> string" where
  "pdf_text acc [] = acc"
| "pdf_text acc (Page t # ps) =
     pdf_text (acc @ (case t of None \<Rightarrow> [] | Some s \<Rightarrow> s) @ [CHR 0x0A]) ps"
| "pdf_text acc (PageRaises # ps) = pdf_text acc ps"

text \<open>
  \<open>insertPlainText\<close> takes a string and raises \<open>TypeError\<close>, with the text \<open>terr\<close>,
  on anything else. The string goes where the text cursor of the box is, in place of
  the selection: \<open>cur = (a, b)\<close> are the two ends of the selection, \<open>a \<le> b\<close>, and
  \<open>a = b\<close> is a cursor with nothing selected.
\<close>

definition insertPlainText :: "string \<Rightarrow> nat \<times> nat \<Rightarrow> pyval \<Rightarrow> app \<Rightarrow> string + app" where
  "insertPlainText terr cur v st =
     (case v of
        Str s \<Rightarrow>
          Inr (st\<lparr>input_box := take (fst cur) (input_box st) @ s @ drop (snd cur) (input_box st)\<rparr>)
      | StrJoin \<Rightarrow> Inl terr)"

text \<open>How the branches of the \<open>try\<close> end before the insertion: a \<open>return\<close> after a notification, or an exception.\<close>

datatype early = Return string | Exc string

text \<open>
  \<open>load_file\<close>. \<open>have_docx\<close> and \<open>have_pdf\<close> say whether the optional imports at the
  top of the module succeeded; \<open>cur\<close> is the text cursor of the compose box;
  \<open>dlg\<close> is \<open>None\<close> when the dialog was not accepted.
\<close>

definition load_file ::
  "bool \<Rightarrow> bool \<Rightarrow> string \<Rightarrow> nat \<times> nat \<Rightarrow> chosen_file option \<Rightarrow> app \<Rightarrow> app" where
  "load_file have_docx have_pdf terr cur dlg st =
     (case dlg of
        None \<Rightarrow> st
      | Some f \<Rightarrow>
          (let r =
             (if ext f = ''.txt'' then
                (case read_result f of Inl e \<Rightarrow> Inl (Exc e) | Inr t \<Rightarrow> Inr (Str t))
              else if ext f = ''.docx'' then
                (if \<not> have_docx then Inl (Return ''python-docx not installed'')
                 else (case document_result f of Inl e \<Rightarrow> Inl (Exc e) | Inr d \<Rightarrow> Inr StrJoin))
              else if ext f = ''.pdf'' then
                (if \<not> have_pdf then Inl (Return ''PyPDF2 not installed'')
                 else (case reader_result f of
                         Inl e \<Rightarrow> Inl (Exc e)
                       | Inr ps \<Rightarrow> Inr (Str (pdf_text [] ps))))
              else Inl (Return (''Unsupported: '' @ ext f)))
           in case r of
                Inl (Return note) \<Rightarrow> show_system note st
              | Inl (Exc e) \<Rightarrow> show_system (''File read error: '' @ e) st
              | Inr v \<Rightarrow>
                  (case insertPlainText terr cur v st of
                     Inl e \<Rightarrow> show_system (''File read error: '' @ e) st
                   | Inr st' \<Rightarrow> st')))"

section \<open>The stream of the scenario\<close>

text \<open>
  The three lines that the backend streams in the scenario of the specification, and
  what \<open>json.loads\<close> makes of them; any other line does not parse.
\<close>

definition line_hi :: string where
  \<open>line_hi = ''{"message":{"content":"Hi"}}''\<close>

definition line_there :: string where
  \<open>line_there = ''{"message":{"content":" there"}}''\<close>

definition line_done :: string where
  \<open>line_done = ''{"done":true}''\<close>

definition scenario_loads :: "string \<Rightarrow> json option" where
  "scenario_loads =
     map_of
       [(line_hi, JDict [(''message'', JDict [(''content'', JStr ''Hi'')])]),
        (line_there, JDict [(''message'', JDict [(''content'', JStr '' there'')])]),
        (line_done, JDict [(''done'', JBool True)])]"

text \<open>
  A closing record that still carries text, and a record whose text is empty, with
  what \<open>json.loads\<close> makes of them.
\<close>

definition line_final :: string where
  \<open>line_final = ''{"message":{"content":"!"},"done":true}''\<close>

definition line_blank :: string where
  \<open>line_blank = ''{"message":{"content":""}}''\<close>

definition closing_loads :: "string \<Rightarrow> json option" where
  "closing_loads =
     map_of
       [(line_final,
         JDict [(''message'', JDict [(''content'', JStr ''!'')]), (''done'', JBool True)]),
        (line_blank, JDict [(''message'', JDict [(''content'', JStr [])])])]"

text \<open>
  Two records that are JSON but not in the format of the backend: a \<open>content\<close> that
  is a number, and a \<open>done\<close> that is a string.
\<close>

definition line_five :: string where
  \<open>line_five = ''{"message":{"content":5}}''\<close>

definition line_done_text :: string where
  \<open>line_done_text = ''{"done":"false"}''\<close>

definition off_format_loads :: "string \<Rightarrow> json option" where
  "off_format_loads =
     map_of
       [(line_hi, JDict [(''message'', JDict [(''content'', JStr ''Hi'')])]),
        (line_five, JDict [(''message'', JDict [(''content'', JInt 5)])]),
        (line_done_text, JDict [(''done'', JStr ''false'')])]"

text \<open>The application with one empty chat, and no model chosen yet.\<close>

definition one_chat :: app where
  "one_chat =
     \<lparr>current_model = None,
      chat_sessions = [\<lparr>sid = ''s1'', title = ''New Chat'', messages = []\<rparr>],
      current_session_id = Some ''s1'', ollama_worker = None, workers = [],
      input_box = [], system_notes = []\<rparr>"

text \<open>
  Two chats, the second one current, and a worker streaming the answer to a message
  sent in it.
\<close>

definition streaming_in_s2 :: app where
  "streaming_in_s2 =
     \<lparr>current_model = Some ''X'',
      chat_sessions =
        [\<lparr>sid = ''s2'', title = ''New Chat'',
          messages = [\<lparr>role = ''user'', content = ''A''\<rparr>, \<lparr>role = ''user'', content = ''A''\<rparr>]\<rparr>,
         \<lparr>sid = ''s1'', title = ''New Chat'', messages = []\<rparr>],
      current_session_id = Some ''s2'', ollama_worker = Some 0,
      workers = [\<lparr>wmodel = ''X'', wsession = ''s2'', wrunning = True, wfull = ''Hi'',
                  walive = True\<rparr>],
      input_box = [], system_notes = []\<rparr>"

text \<open>A user text of 45 characters.\<close>

definition long_text :: string where
  "long_text = ''The quick brown fox jumps over the lazy dog!!''"

section \<open>The stream client\<close>

lemma on_record_ok:
  "record_ok data \<Longrightarrow>
   on_record data full = Inr (full @ concat (spec_delta data), map Chunk (spec_delta data))"
  by (auto simp: record_ok_def on_record_def spec_delta_def Let_def
      split: json.splits option.splits)

lemma is_done_ok: "is_done data = spec_done data" if "record_ok data"
proof (cases data)
  case (JDict d)
  show ?thesis
  proof (cases "map_of d ''done''")
    case None
    then show ?thesis using JDict by (simp add: is_done_def spec_done_def)
  next
    case (Some v)
    then show ?thesis using JDict that
      by (cases v) (auto simp: record_ok_def is_done_def spec_done_def)
  qed
qed (simp_all add: is_done_def spec_done_def)

lemma run_loop_spec:
  assumes "\<forall>l\<in>set lines. \<forall>data. loads l = Some data \<longrightarrow> record_ok data"
  shows "run_loop loads full (map (\<lambda>l. (True, Line l)) lines)
         = (map Chunk (spec_deltas loads lines), Inr (full @ concat (spec_deltas loads lines)))"
  using assms
proof (induction lines arbitrary: full)
  case Nil
  then show ?case by simp
next
  case (Cons l ls)
  show ?case
  proof (cases "l = [] \<or> loads l = None")
    case True
    then show ?thesis using Cons by (auto simp: body_def)
  next
    case False
    then obtain data where d: "loads l = Some data" "l \<noteq> []" by auto
    then have ok: "record_ok data" using Cons.prems by simp
    show ?thesis using d Cons by (simp add: body_def on_record_ok[OF ok] is_done_ok[OF ok])
  qed
qed

lemma scenario_loads_simps:
  "scenario_loads line_hi = Some (JDict [(''message'', JDict [(''content'', JStr ''Hi'')])])"
  "scenario_loads line_there = Some (JDict [(''message'', JDict [(''content'', JStr '' there'')])])"
  "scenario_loads line_done = Some (JDict [(''done'', JBool True)])"
  "scenario_loads ''not json'' = None"
  "scenario_loads [] = None"
  by (simp_all add: scenario_loads_def line_hi_def line_there_def line_done_def)

lemma line_nonempty: "line_hi \<noteq> []" "line_there \<noteq> []" "line_done \<noteq> []"
  by (simp_all add: line_hi_def line_there_def line_done_def)

lemma scenario_records_ok: "scenario_loads l = Some data \<Longrightarrow> record_ok data"
  by (auto simp: scenario_loads_def record_ok_def split: if_splits)

text \<open>
  Claim C6, as the code has it. Take any sequence of lines whose records are in the format of the backend
  (a \<open>content\<close> that counts as true is a string, a \<open>done\<close> that counts as true is
  \<open>true\<close>), and a worker that is not stopped. Then \<open>run\<close> emits, between the two
  typing signals, exactly the deltas that the specification describes, in order:
  empty lines and lines that do not parse are passed over without an error, every
  text of a \<open>{message:{content}}\<close> record is a chunk, nothing after the record with
  \<open>done = true\<close> is looked at. The stream ends with \<open>full_response\<close>, and its text is
  the concatenation of the deltas.
\<close>

theorem run_parses_stream:
  assumes "\<forall>l\<in>set lines. \<forall>data. loads l = Some data \<longrightarrow> record_ok data"
  shows "run loads (map (\<lambda>l. (True, Line l)) lines)
         = [Typing True] @ map Chunk (spec_deltas loads lines)
           @ [Full (concat (spec_deltas loads lines)), Typing False]"
  by (simp add: run_def run_loop_spec[OF assms])

theorem run_parses_stream_witness:
  "run scenario_loads
     (map (\<lambda>l. (True, Line l)) [line_hi, [], ''not json'', line_there, line_done, line_hi])
   = [Typing True, Chunk ''Hi'', Chunk '' there'', Full ''Hi there'', Typing False]"
proof -
  have h: "\<forall>l\<in>set [line_hi, [], ''not json'', line_there, line_done, line_hi].
      \<forall>data. scenario_loads l = Some data \<longrightarrow> record_ok data"
    using scenario_records_ok by blast
  have d: "spec_deltas scenario_loads [line_hi, [], ''not json'', line_there, line_done, line_hi]
           = [''Hi'', '' there'']"
    by (simp add: scenario_loads_simps line_nonempty spec_delta_def spec_done_def)
  have r: "run scenario_loads
     (map (\<lambda>l. (True, Line l)) [line_hi, [], ''not json'', line_there, line_done, line_hi])
   = [Typing True, Chunk ''Hi'', Chunk '' there'', Full ''Hi there'', Typing False]"
    using run_parses_stream [OF h] unfolding d by simp
  then show ?thesis .
qed

text \<open>
  Against C6 as stated, for every line sequence. A line that parses to a record
  whose \<open>content\<close> is the number 5 makes \<open>full += content\<close> raise: the stream ends
  with \<open>error_occurred\<close>, no \<open>full_response\<close> is emitted and the text of the record
  after it is never a chunk. A record whose \<open>done\<close> is the string \<open>false\<close> counts as
  true and ends the stream before the record after it is read. By the words of the
  specification both sequences have the deltas of all their \<open>{message:{content}}\<close>
  records.
\<close>

theorem run_aborts_on_off_format_record:
  "run off_format_loads [(True, Line line_hi), (True, Line line_five), (True, Line line_hi)]
     = [Typing True, Chunk ''Hi'',
        Error (''can only concatenate str (not '' @ [CHR 0x22] @ ''int'' @ [CHR 0x22] @ '') to str''),
        Typing False] \<and>
   spec_deltas off_format_loads [line_hi, line_five, line_hi] = [''Hi'', ''Hi''] \<and>
   run off_format_loads [(True, Line line_done_text), (True, Line line_hi)]
     = [Typing True, Full [], Typing False] \<and>
   spec_deltas off_format_loads [line_done_text, line_hi] = [''Hi'']"
  by code_simp

text \<open>
  Claim C10. Let a non-empty line parse to a dict whose \<open>message\<close> is a dict, and
  let the worker be running. If the record carries a non-empty text and
  \<open>done = true\<close>, the text is emitted as a chunk and added to \<open>full\<close>, and only then
  is the loop left: the lines after it are not read. If the text is the empty
  string, no chunk is emitted and \<open>full\<close> stays as it is; the loop then stops or
  goes on as the \<open>done\<close> field says.
\<close>

theorem done_record_content_kept:
  assumes "l \<noteq> []" and "loads l = Some (JDict d)"
    and "map_of d ''message'' = Some (JDict m)"
  shows "(map_of m ''content'' = Some (JStr c) \<and> c \<noteq> [] \<and> map_of d ''done'' = Some (JBool True) \<longrightarrow>
            run_loop loads full ((True, Line l) # rest) = ([Chunk c], Inr (full @ c))) \<and>
         (map_of m ''content'' = Some (JStr []) \<longrightarrow>
            run_loop loads full ((True, Line l) # rest) =
              (if is_done (JDict d) then ([], Inr full) else run_loop loads full rest))"
  using assms by (auto simp: body_def on_record_def is_done_def)

lemma closing_loads_simps:
  "closing_loads line_final =
     Some (JDict [(''message'', JDict [(''content'', JStr ''!'')]), (''done'', JBool True)])"
  "closing_loads line_blank = Some (JDict [(''message'', JDict [(''content'', JStr [])])])"
  "line_final \<noteq> []" "line_blank \<noteq> []"
  by (simp_all add: closing_loads_def line_final_def line_blank_def)

theorem done_record_content_kept_witness:
  "run_loop closing_loads ''Hi'' [(True, Line line_final), (True, Line line_blank)]
     = ([Chunk ''!''], Inr ''Hi!'') \<and>
   run_loop closing_loads ''Hi'' [(True, Line line_blank), (True, Line line_final)]
     = ([Chunk ''!''], Inr ''Hi!'')"
  using
    done_record_content_kept [of line_final closing_loads
      "[(''message'', JDict [(''content'', JStr ''!'')]), (''done'', JBool True)]"
      "[(''content'', JStr ''!'')]" "''!''" "''Hi''" "[(True, Line line_blank)]"]
    done_record_content_kept [of line_final closing_loads
      "[(''message'', JDict [(''content'', JStr ''!'')]), (''done'', JBool True)]"
      "[(''content'', JStr ''!'')]" "''!''" "''Hi''" "[]"]
    done_record_content_kept [of line_blank closing_loads
      "[(''message'', JDict [(''content'', JStr [])])]"
      "[(''content'', JStr [])]" "[]" "''Hi''" "[(True, Line line_final)]"]
  by (simp add: closing_loads_simps is_done_def)

text \<open>
  Beside C6: whatever the lines are and whenever the worker is stopped, the loop
  emits chunks only, and when it is left normally \<open>full\<close> has grown by exactly the
  chunks emitted, in order.
\<close>

lemma on_record_chunks:
  "on_record data full = Inr (full', sigs) \<Longrightarrow>
   full' = full @ concat (map chunk_text sigs) \<and> (\<forall>sg\<in>set sigs. \<exists>c. sg = Chunk c)"
  by (auto simp: on_record_def Let_def split: json.splits option.splits if_splits
      elim!: add_content.elims)

lemma body_chunks:
  "body loads running full l = (c, full', sigs) \<Longrightarrow>
   (\<forall>sg\<in>set sigs. \<exists>t. sg = Chunk t) \<and> (c \<noteq> Raise e \<longrightarrow> full' = full @ concat (map chunk_text sigs))"
  by (auto simp: body_def split: if_splits option.splits sum.splits dest: on_record_chunks)

lemma run_loop_chunks:
  "run_loop loads full items = (sigs, r) \<Longrightarrow>
   (\<forall>sg\<in>set sigs. \<exists>t. sg = Chunk t) \<and>
   (\<forall>f. r = Inr f \<longrightarrow> f = full @ concat (map chunk_text sigs))"
proof (induction loads full items arbitrary: sigs r rule: run_loop.induct)
  case (1 loads full)
  then show ?case by auto
next
  case (2 loads full running e rest)
  then show ?case by auto
next
  case (3 loads full running l rest)
  obtain c f s1 where b: "body loads running full l = (c, f, s1)"
    by (cases "body loads running full l") auto
  have bc: "(\<forall>sg\<in>set s1. \<exists>t. sg = Chunk t)"
    and bf: "\<And>e. c \<noteq> Raise e \<Longrightarrow> f = full @ concat (map chunk_text s1)"
    using body_chunks [OF b] by auto
  show ?case
  proof (cases c)
    case Continue
    obtain s2 r2 where rl: "run_loop loads f rest = (s2, r2)"
      by (cases "run_loop loads f rest") auto
    have ih: "(\<forall>sg\<in>set s2. \<exists>t. sg = Chunk t) \<and>
              (\<forall>g. r2 = Inr g \<longrightarrow> g = f @ concat (map chunk_text s2))"
      using "3.IH" [OF b [symmetric] _ _ rl] Continue by simp
    have "sigs = s1 @ s2" "r = r2" using "3.prems" b Continue rl by auto
    then show ?thesis using bc bf [of undefined] Continue ih by auto
  next
    case Break
    then have "sigs = s1" "r = Inr f" using "3.prems" b by auto
    then show ?thesis using bc bf [of undefined] Break by auto
  next
    case (Raise e)
    then have "sigs = s1" "r = Inl e" using "3.prems" b by auto
    then show ?thesis using bc by auto
  qed
qed

text \<open>
  Part of C1 that holds: a stream that ends with an exception emits
  \<open>error_occurred\<close> and never \<open>full_response\<close>, and the slot of \<open>error_occurred\<close>
  shows a notification and leaves every message log as it is.
\<close>

lemma errored_run_emits_no_full:
  assumes "run_loop loads [] items = (sigs, Inl e)"
  shows "run loads items = [Typing True] @ sigs @ [Error e, Typing False]"
    and "Full t \<notin> set (run loads items)"
  using assms run_loop_chunks [OF assms] by (auto simp: run_def)

lemma error_slot_keeps_logs:
  "deliver cs (Error e) st = Inr (st\<lparr>system_notes := system_notes st @ [''AI Error: '' @ e]\<rparr>)"
  by (simp add: show_system_def)

section \<open>Sending a message\<close>

lemma strip_empty_iff: "strip s = [] \<longleftrightarrow> (\<forall>c\<in>set s. isspace c)"
proof
  assume "strip s = []"
  then have a: "\<forall>c\<in>set (dropWhile isspace s). isspace c"
    by (simp add: strip_def dropWhile_eq_Nil_conv)
  have "dropWhile isspace s = []"
  proof (rule ccontr)
    assume n: "dropWhile isspace s \<noteq> []"
    then have "\<not> isspace (hd (dropWhile isspace s))" by (rule hd_dropWhile)
    moreover have "hd (dropWhile isspace s) \<in> set (dropWhile isspace s)" using n by simp
    ultimately show False using a by blast
  qed
  then show "\<forall>c\<in>set s. isspace c" by (simp add: dropWhile_eq_Nil_conv)
next
  assume "\<forall>c\<in>set s. isspace c"
  then show "strip s = []" by (auto simp: strip_def dest: set_dropWhileD)
qed

text \<open>
  Claim C9. When the compose box is empty or holds white space only,
  \<open>send_message\<close> returns at once and the whole state is as before: no log changes
  and no worker is made. When the box holds more than white space and no model is
  selected, the only change is the notification \<open>Select a model first\<close>: again no
  log changes and no worker is made.
\<close>

theorem send_message_guards:
  "((\<forall>c\<in>set (input_box st). isspace c) \<longrightarrow> send_message st = Inr st) \<and>
   (\<not> (\<forall>c\<in>set (input_box st). isspace c) \<and> \<not> model_selected (current_model st) \<longrightarrow>
      send_message st = Inr (st\<lparr>system_notes := system_notes st @ [''Select a model first'']\<rparr>))"
  using strip_empty_iff [of "input_box st"]
  by (auto simp: send_message_def Let_def show_system_def)

theorem send_message_guards_witness:
  "send_message (one_chat\<lparr>input_box := [CHR '' '', CHR 0x09, CHR 0x0A]\<rparr>)
     = Inr (one_chat\<lparr>input_box := [CHR '' '', CHR 0x09, CHR 0x0A]\<rparr>) \<and>
   send_message (one_chat\<lparr>input_box := ''Hello''\<rparr>)
     = Inr (one_chat\<lparr>input_box := ''Hello'', system_notes := [''Select a model first'']\<rparr>)"
proof -
  have a: "\<forall>c\<in>set (input_box (one_chat\<lparr>input_box := [CHR '' '', CHR 0x09, CHR 0x0A]\<rparr>)). isspace c"
    by (simp add: isspace_def)
  have b: "\<not> (\<forall>c\<in>set (input_box (one_chat\<lparr>input_box := ''Hello''\<rparr>)). isspace c)"
    by (simp add: isspace_def)
  have c: "\<not> model_selected (current_model (one_chat\<lparr>input_box := ''Hello''\<rparr>))"
    by (simp add: one_chat_def model_selected_def)
  show ?thesis
    using send_message_guards [of "one_chat\<lparr>input_box := [CHR '' '', CHR 0x09, CHR 0x0A]\<rparr>"]
      send_message_guards [of "one_chat\<lparr>input_box := ''Hello''\<rparr>"] a b c
    by (simp add: one_chat_def)
qed

text \<open>
  Claim C5. Sending \<open>Hello\<close> in a fresh chat with the model \<open>X\<close> leaves two user
  messages \<open>Hello\<close> in the log: line 363 appends one, and \<open>_render_message\<close>, called
  at line 364 without \<open>initial\<close>, appends it again.
\<close>

theorem send_appends_user_twice:
  "exec scenario_loads
     [NewChat ''s1'' True, SelectModel ''X'', SetInput ''Hello'', Send] app_init
   = Inr \<lparr>current_model = Some ''X'',
          chat_sessions =
            [\<lparr>sid = ''s1'', title = ''New Chat'',
              messages = [\<lparr>role = ''user'', content = ''Hello''\<rparr>,
                          \<lparr>role = ''user'', content = ''Hello''\<rparr>]\<rparr>],
          current_session_id = Some ''s1'', ollama_worker = Some 0,
          workers = [\<lparr>wmodel = ''X'', wsession = ''s1'', wrunning = True, wfull = [],
                      walive = True\<rparr>],
          input_box = [], system_notes = []\<rparr>"
  by code_simp

subsection \<open>The title\<close>

text \<open>The rule of line 280 itself: a text of at most 30 characters is kept, a longer one is cut to 30 and marked.\<close>

lemma derive_title_short: "length t \<le> 30 \<Longrightarrow> derive_title t = t"
  by (simp add: derive_title_def)

lemma derive_title_long: "30 < length t \<Longrightarrow> derive_title t = take 30 t @ ''...''"
  by (simp add: derive_title_def)

lemma derive_title_examples:
  "derive_title ''short text'' = ''short text''"
  "length long_text = 45"
  "derive_title long_text = ''The quick brown fox jumps over...''"
  by (simp_all add: derive_title_def long_text_def)

lemma find_sid: "find (\<lambda>s. sid s = cid) ss = Some s \<Longrightarrow> sid s = cid"
  by (induction ss) (auto split: if_splits)

lemma find_update_session:
  "find (\<lambda>s. sid s = cid) ss = Some s \<Longrightarrow> sid (f s) = cid \<Longrightarrow>
   find (\<lambda>s. sid s = cid) (update_session cid f ss) = Some (f s)"
  by (induction ss) (auto split: if_splits)

lemma map_title_update_session:
  "(\<And>s. title (f s) = title s) \<Longrightarrow> map title (update_session cid f ss) = map title ss"
  by (induction ss) auto

lemma map_title_update_session_const:
  "find (\<lambda>s. sid s = cid) ss = Some s \<Longrightarrow> title s' = title s \<Longrightarrow>
   map title (update_session cid (\<lambda>_. s') ss) = map title ss"
  by (induction ss) (auto split: if_splits)

text \<open>
  No call of \<open>send_message\<close> changes a title: when \<open>_render_message\<close> counts the user
  messages, the message has been appended twice, so the count is never 1.
\<close>

lemma send_message_titles:
  assumes "send_message st = Inr st'"
  shows "map title (chat_sessions st') = map title (chat_sessions st)"
proof (cases "strip (input_box st) = [] \<or> \<not> model_selected (current_model st)")
  case True
  then show ?thesis using assms
    by (auto simp: send_message_def Let_def show_system_def split: if_splits)
next
  case False
  then obtain s where g: "get_session st = Some s"
    using assms by (auto simp: send_message_def Let_def split: option.splits)
  then obtain cid where c: "current_session_id st = Some cid"
    and f: "find (\<lambda>s. sid s = cid) (chat_sessions st) = Some s"
    by (auto simp: get_session_def split: option.splits)
  have sc: "sid s = cid" using f by (rule find_sid)
  let ?m = "\<lparr>role = ''user'', content = strip (input_box st)\<rparr>"
  let ?ss1 = "update_session cid (append_message ?m) (chat_sessions st)"
  let ?st1 = "st\<lparr>chat_sessions := ?ss1\<rparr>"
  have f1: "find (\<lambda>s. sid s = cid) ?ss1 = Some (append_message ?m s)"
    using f sc by (intro find_update_session) (simp_all add: append_message_def)
  have g1: "get_session ?st1 = Some (append_message ?m s)"
    using c f1 by (simp add: get_session_def)
  have t1: "map title ?ss1 = map title (chat_sessions st)"
    by (rule map_title_update_session) (simp add: append_message_def)
  let ?s2 = "append_message ?m (append_message ?m s)"
  have r: "render_message ''user'' (strip (input_box st)) False ?st1
           = Inr (?st1\<lparr>chat_sessions := update_session cid (\<lambda>_. ?s2) ?ss1\<rparr>)"
    using g1 sc by (simp add: render_message_def Let_def append_message_def)
  have t2: "map title (update_session cid (\<lambda>_. ?s2) ?ss1) = map title ?ss1"
    using f1 by (rule map_title_update_session_const) (simp add: append_message_def)
  show ?thesis using assms False g sc r t1 t2
    by (auto simp: send_message_def Let_def stop_def split: option.splits)
qed

text \<open>
  Claim C4. The first user message of a chat is the 10 characters \<open>short text\<close>; in
  a second chat it is a text of 45 characters. After both sends each chat still has
  the title \<open>New Chat\<close>: the title rule is never applied, because the log holds the
  user message twice when the count is taken.
\<close>

theorem first_send_keeps_default_title:
  "exec scenario_loads
     [NewChat ''s1'' True, SelectModel ''X'', SetInput ''short text'', Send,
      NewChat ''s2'' True, SetInput long_text, Send] app_init
   = Inr \<lparr>current_model = Some ''X'',
          chat_sessions =
            [\<lparr>sid = ''s2'', title = ''New Chat'',
              messages = [\<lparr>role = ''user'', content = long_text\<rparr>,
                          \<lparr>role = ''user'', content = long_text\<rparr>]\<rparr>,
             \<lparr>sid = ''s1'', title = ''New Chat'',
              messages = [\<lparr>role = ''user'', content = ''short text''\<rparr>,
                          \<lparr>role = ''user'', content = ''short text''\<rparr>]\<rparr>],
          current_session_id = Some ''s2'', ollama_worker = Some 1,
          workers = [\<lparr>wmodel = ''X'', wsession = ''s1'', wrunning = False, wfull = [],
                      walive = True\<rparr>,
                     \<lparr>wmodel = ''X'', wsession = ''s2'', wrunning = True, wfull = [],
                      walive = True\<rparr>],
          input_box = [], system_notes = []\<rparr>"
  by code_simp

section \<open>The end of a stream\<close>

text \<open>
  Claim C2. In the scenario of the specification (a new chat, \<open>Hello\<close> sent with the
  model \<open>X\<close>, the backend streams \<open>Hi\<close>, \<open>there\<close> and the closing record) the text
  committed is \<open>Hi there\<close>, the concatenation of the deltas, but the log receives
  two assistant messages with it: \<open>on_full\<close> appends one at line 409 and
  \<open>_render_message\<close>, called at line 410 without \<open>initial\<close>, appends it again.
\<close>

theorem done_stream_commits_twice:
  "exec scenario_loads
     [NewChat ''s1'' True, SelectModel ''X'', SetInput ''Hello'', Send,
      Recv 0 (Some (Line line_hi)), Recv 0 (Some (Line line_there)),
      Recv 0 (Some (Line line_done))] app_init
   = Inr \<lparr>current_model = Some ''X'',
          chat_sessions =
            [\<lparr>sid = ''s1'', title = ''New Chat'',
              messages = [\<lparr>role = ''user'', content = ''Hello''\<rparr>,
                          \<lparr>role = ''user'', content = ''Hello''\<rparr>,
                          \<lparr>role = ''assistant'', content = ''Hi there''\<rparr>,
                          \<lparr>role = ''assistant'', content = ''Hi there''\<rparr>]\<rparr>],
          current_session_id = Some ''s1'', ollama_worker = None,
          workers = [\<lparr>wmodel = ''X'', wsession = ''s1'', wrunning = True,
                      wfull = ''Hi there'', walive = False\<rparr>],
          input_box = [], system_notes = []\<rparr>"
  by code_simp

text \<open>
  Claim C1. A worker that reads \<open>_running = False\<close> leaves the loop by \<open>break\<close> and
  goes on to line 74: it emits \<open>full_response\<close> with the text gathered so far. In
  the application, message \<open>A\<close> is sent, the delta \<open>Hi\<close> arrives, message \<open>B\<close> is
  sent, which stops the first worker, and that worker then takes its next line: the
  partial text \<open>Hi\<close> of the cancelled stream is committed to the log as an assistant
  message (twice).
\<close>

theorem cancelled_stream_commits_partial:
  "run scenario_loads [(True, Line line_hi), (False, Line line_there)]
     = [Typing True, Chunk ''Hi'', Full ''Hi'', Typing False] \<and>
   exec scenario_loads
     [NewChat ''s1'' True, SelectModel ''X'', SetInput ''A'', Send,
      Recv 0 (Some (Line line_hi)), SetInput ''B'', Send,
      Recv 0 (Some (Line line_there))] app_init
   = Inr \<lparr>current_model = Some ''X'',
          chat_sessions =
            [\<lparr>sid = ''s1'', title = ''New Chat'',
              messages = [\<lparr>role = ''user'', content = ''A''\<rparr>,
                          \<lparr>role = ''user'', content = ''A''\<rparr>,
                          \<lparr>role = ''user'', content = ''B''\<rparr>,
                          \<lparr>role = ''user'', content = ''B''\<rparr>,
                          \<lparr>role = ''assistant'', content = ''Hi''\<rparr>,
                          \<lparr>role = ''assistant'', content = ''Hi''\<rparr>]\<rparr>],
          current_session_id = Some ''s1'', ollama_worker = None,
          workers = [\<lparr>wmodel = ''X'', wsession = ''s1'', wrunning = False, wfull = ''Hi'',
                      walive = False\<rparr>,
                     \<lparr>wmodel = ''X'', wsession = ''s1'', wrunning = True, wfull = [],
                      walive = True\<rparr>],
          input_box = [], system_notes = []\<rparr>"
  by code_simp

text \<open>
  Claim C3. The same trace, followed by a third message \<open>C\<close>. The \<open>on_full\<close> of the
  superseded first worker has set \<open>self.ollama_worker\<close> to \<open>None\<close> while the second
  worker was streaming, so the third send finds nothing to stop: afterwards the
  second and the third worker are both alive with \<open>_running = True\<close> in the one
  session, and the log holds the text of the superseded stream.
\<close>

theorem superseded_stream_clears_handle:
  "exec scenario_loads
     [NewChat ''s1'' True, SelectModel ''X'', SetInput ''A'', Send,
      Recv 0 (Some (Line line_hi)), SetInput ''B'', Send,
      Recv 0 (Some (Line line_there)), SetInput ''C'', Send] app_init
   = Inr \<lparr>current_model = Some ''X'',
          chat_sessions =
            [\<lparr>sid = ''s1'', title = ''New Chat'',
              messages = [\<lparr>role = ''user'', content = ''A''\<rparr>,
                          \<lparr>role = ''user'', content = ''A''\<rparr>,
                          \<lparr>role = ''user'', content = ''B''\<rparr>,
                          \<lparr>role = ''user'', content = ''B''\<rparr>,
                          \<lparr>role = ''assistant'', content = ''Hi''\<rparr>,
                          \<lparr>role = ''assistant'', content = ''Hi''\<rparr>,
                          \<lparr>role = ''user'', content = ''C''\<rparr>,
                          \<lparr>role = ''user'', content = ''C''\<rparr>]\<rparr>],
          current_session_id = Some ''s1'', ollama_worker = Some 2,
          workers = [\<lparr>wmodel = ''X'', wsession = ''s1'', wrunning = False, wfull = ''Hi'',
                      walive = False\<rparr>,
                     \<lparr>wmodel = ''X'', wsession = ''s1'', wrunning = True, wfull = [],
                      walive = True\<rparr>,
                     \<lparr>wmodel = ''X'', wsession = ''s1'', wrunning = True, wfull = [],
                      walive = True\<rparr>],
          input_box = [], system_notes = []\<rparr>"
  by code_simp

text \<open>
  Part of C3 that holds: a send that finds a worker in \<open>self.ollama_worker\<close> sets
  that worker's \<open>_running\<close> to \<open>False\<close> before the new worker exists.
\<close>

lemma send_message_stops_referenced_worker:
  assumes "send_message st = Inr st'" and "strip (input_box st) \<noteq> []"
    and "model_selected (current_model st)"
    and "ollama_worker st = Some w" and "w < length (workers st)"
  shows "\<not> wrunning (workers st' ! w) \<and> ollama_worker st' = Some (length (workers st))
         \<and> length (workers st') = Suc (length (workers st))"
  using assms
  by (auto simp: send_message_def Let_def render_message_def stop_def nth_append
      split: option.splits sum.splits if_splits)

section \<open>Switching the chat\<close>

lemma streaming_in_s2_reached:
  "exec scenario_loads
     [NewChat ''s1'' True, NewChat ''s2'' True, SelectModel ''X'', SetInput ''A'', Send,
      Recv 0 (Some (Line line_hi))] app_init
   = Inr streaming_in_s2"
  by code_simp

text \<open>
  Claim C7, as the code has it. Clicking another chat changes which session is
  current and nothing else: the store of workers (and with it every \<open>_running\<close>
  flag), \<open>self.ollama_worker\<close> and every message log are as before. A stream that is
  active at the switch is not signalled to stop and stays the active one.
\<close>

theorem chat_switch_changes_current_only:
  assumes "on_chat_selected cid st = Inr st'"
  shows "st' = st\<lparr>current_session_id := Some cid\<rparr> \<and> workers st' = workers st \<and>
         ollama_worker st' = ollama_worker st \<and> chat_sessions st' = chat_sessions st"
  using assms by (auto simp: on_chat_selected_def Let_def split: if_splits option.splits)

theorem chat_switch_changes_current_only_witness:
  "on_chat_selected ''s1'' streaming_in_s2
     = Inr (streaming_in_s2\<lparr>current_session_id := Some ''s1''\<rparr>) \<and>
   workers (streaming_in_s2\<lparr>current_session_id := Some ''s1''\<rparr>)
     = [\<lparr>wmodel = ''X'', wsession = ''s2'', wrunning = True, wfull = ''Hi'', walive = True\<rparr>] \<and>
   ollama_worker (streaming_in_s2\<lparr>current_session_id := Some ''s1''\<rparr>) = Some 0 \<and>
   chat_sessions (streaming_in_s2\<lparr>current_session_id := Some ''s1''\<rparr>)
     = chat_sessions streaming_in_s2"
proof -
  have h: "on_chat_selected ''s1'' streaming_in_s2
     = Inr (streaming_in_s2\<lparr>current_session_id := Some ''s1''\<rparr>)"
    by (simp add: on_chat_selected_def streaming_in_s2_def get_session_def)
  show ?thesis using h chat_switch_changes_current_only [OF h]
    by (simp add: streaming_in_s2_def)
qed

text \<open>
  Against C7 as stated: a message is sent in chat \<open>s2\<close>, the delta \<open>Hi\<close> arrives, and
  the user clicks chat \<open>s1\<close>. The worker is still alive with \<open>_running = True\<close> and
  is still \<open>self.ollama_worker\<close>; it reads the rest of the stream and its text is
  committed.
\<close>

theorem chat_switch_does_not_stop_stream:
  "exec scenario_loads
     [NewChat ''s1'' True, NewChat ''s2'' True, SelectModel ''X'', SetInput ''A'', Send,
      Recv 0 (Some (Line line_hi)), SelectChat ''s1''] app_init
   = Inr \<lparr>current_model = Some ''X'',
          chat_sessions =
            [\<lparr>sid = ''s2'', title = ''New Chat'',
              messages = [\<lparr>role = ''user'', content = ''A''\<rparr>,
                          \<lparr>role = ''user'', content = ''A''\<rparr>]\<rparr>,
             \<lparr>sid = ''s1'', title = ''New Chat'', messages = []\<rparr>],
          current_session_id = Some ''s1'', ollama_worker = Some 0,
          workers = [\<lparr>wmodel = ''X'', wsession = ''s2'', wrunning = True, wfull = ''Hi'',
                      walive = True\<rparr>],
          input_box = [], system_notes = []\<rparr> \<and>
   exec scenario_loads
     [NewChat ''s1'' True, NewChat ''s2'' True, SelectModel ''X'', SetInput ''A'', Send,
      Recv 0 (Some (Line line_hi)), SelectChat ''s1'',
      Recv 0 (Some (Line line_there)), Recv 0 (Some (Line line_done))] app_init
   = Inr \<lparr>current_model = Some ''X'',
          chat_sessions =
            [\<lparr>sid = ''s2'', title = ''New Chat'',
              messages = [\<lparr>role = ''user'', content = ''A''\<rparr>,
                          \<lparr>role = ''user'', content = ''A''\<rparr>,
                          \<lparr>role = ''assistant'', content = ''Hi there''\<rparr>]\<rparr>,
             \<lparr>sid = ''s1'', title = ''New Chat'',
              messages = [\<lparr>role = ''assistant'', content = ''Hi there''\<rparr>]\<rparr>],
          current_session_id = Some ''s1'', ollama_worker = None,
          workers = [\<lparr>wmodel = ''X'', wsession = ''s2'', wrunning = True,
                      wfull = ''Hi there'', walive = False\<rparr>],
          input_box = [], system_notes = []\<rparr>"
  by code_simp

section \<open>Loading a file\<close>

text \<open>
  Claim C8. For a \<open>.docx\<close> file that \<open>python-docx\<close> opens, line 470 assigns the
  method \<open>"\n".join\<close> to \<open>content\<close> instead of the joined paragraph texts;
  \<open>insertPlainText\<close> raises on it, and the file ends as \<open>File read error\<close> with
  nothing put into the compose box, whatever its paragraphs are.
\<close>

theorem docx_file_reports_error:
  "load_file True have_pdf terr cur
     (Some \<lparr>ext = ''.docx'', read_result = r,
            document_result = Inr [''first paragraph'', ''second paragraph''],
            reader_result = q\<rparr>) st
   = st\<lparr>system_notes := system_notes st @ [''File read error: '' @ terr]\<rparr>"
  by (simp add: load_file_def insertPlainText_def show_system_def)

text \<open>The branches of C8 that do what the claim says.\<close>

lemma load_file_txt:
  "load_file have_docx have_pdf terr (a, b)
     (Some \<lparr>ext = ''.txt'', read_result = Inr t, document_result = d, reader_result = q\<rparr>) st
   = st\<lparr>input_box := take a (input_box st) @ t @ drop b (input_box st)\<rparr>"
  by (simp add: load_file_def insertPlainText_def)

lemma load_file_pdf:
  "load_file have_docx True terr (a, b)
     (Some \<lparr>ext = ''.pdf'', read_result = r, document_result = d, reader_result = Inr ps\<rparr>) st
   = st\<lparr>input_box := take a (input_box st) @ pdf_text [] ps @ drop b (input_box st)\<rparr>"
  by (simp add: load_file_def insertPlainText_def)

lemma load_file_txt_at_cursor:
  "input_box
     (load_file True True terr (0, 0)
        (Some \<lparr>ext = ''.txt'', read_result = Inr ''FILE'', document_result = Inl [],
               reader_result = Inl []\<rparr>)
        (one_chat\<lparr>input_box := ''typed''\<rparr>))
   = ''FILEtyped''"
  by (simp add: load_file_def insertPlainText_def)

lemma pdf_text_skips_failing_page:
  "pdf_text [] [Page (Some ''one''), PageRaises, Page None, Page (Some ''two'')]
   = ''one'' @ [CHR 0x0A] @ [CHR 0x0A] @ ''two'' @ [CHR 0x0A]"
  by simp

lemma load_file_unsupported:
  "ext f \<noteq> ''.txt'' \<Longrightarrow> ext f \<noteq> ''.docx'' \<Longrightarrow> ext f \<noteq> ''.pdf'' \<Longrightarrow>
   load_file have_docx have_pdf terr cur (Some f) st
   = st\<lparr>system_notes := system_notes st @ [''Unsupported: '' @ ext f]\<rparr>"
  by (simp add: load_file_def show_system_def)

lemma load_file_missing_reader:
  "load_file False have_pdf terr cur
     (Some \<lparr>ext = ''.docx'', read_result = r, document_result = d, reader_result = q\<rparr>) st
   = st\<lparr>system_notes := system_notes st @ [''python-docx not installed'']\<rparr>"
  "load_file have_docx False terr cur
     (Some \<lparr>ext = ''.pdf'', read_result = r, document_result = d, reader_result = q\<rparr>) st
   = st\<lparr>system_notes := system_notes st @ [''PyPDF2 not installed'']\<rparr>"
  by (simp_all add: load_file_def show_system_def)

end
